theory Spec2Isabelle
  imports Main
begin

section \<open>Python strings\<close>

text \<open>
  A Python \<open>str\<close> is a sequence of Unicode code points, so it is modelled as a list of
  natural numbers, one per code point. \<open>str\<close> turns an ASCII literal into such a list;
  characters outside ASCII, the backslash, the quotes and the newline are written as
  numbers.
\<close>

type_synonym pystr = "nat list"

definition str :: "string \<Rightarrow> pystr" where
  "str cs = map of_char cs"

abbreviation backslash :: nat where "backslash \<equiv> 92"
abbreviation newline :: nat where "newline \<equiv> 10"
abbreviation asterisk :: nat where "asterisk \<equiv> 42"

text \<open>\<open>s.startswith(p)\<close>\<close>

fun startswith :: "pystr \<Rightarrow> pystr \<Rightarrow> bool" where
  "startswith s [] = True"
| "startswith [] (p # ps) = False"
| "startswith (c # cs) (p # ps) = (c = p \<and> startswith cs ps)"

text \<open>\<open>sub in s\<close>\<close>

fun contains :: "pystr \<Rightarrow> pystr \<Rightarrow> bool" where
  "contains [] sub = (sub = [])"
| "contains (c # cs) sub = (startswith (c # cs) sub \<or> contains cs sub)"

text \<open>The number of positions of \<open>s\<close> at which \<open>sub\<close> occurs.\<close>

fun occurrences :: "pystr \<Rightarrow> pystr \<Rightarrow> nat" where
  "occurrences [] sub = (if sub = [] then 1 else 0)"
| "occurrences (c # cs) sub =
     (if startswith (c # cs) sub then Suc (occurrences cs sub) else occurrences cs sub)"

text \<open>
  \<open>s.replace(old, new)\<close>: the occurrences of \<open>old\<close> are found from left to right and
  do not overlap. For an empty \<open>old\<close> Python puts \<open>new\<close> before every character and
  at the end.
\<close>

fun replace_scan :: "pystr \<Rightarrow> pystr \<Rightarrow> pystr \<Rightarrow> pystr" where
  "replace_scan old new [] = []"
| "replace_scan old new (c # cs) =
     (if startswith (c # cs) old
      then new @ replace_scan old new (drop (length old - 1) cs)
      else c # replace_scan old new cs)"

definition replace :: "pystr \<Rightarrow> pystr \<Rightarrow> pystr \<Rightarrow> pystr" where
  "replace s old new =
     (if old = [] then new @ concat (map (\<lambda>c. c # new) s) else replace_scan old new s)"

section \<open>The regular expression of the escaper\<close>

text \<open>
  \<open>re.escape\<close> (Python 3.7 and later) puts a backslash before each character that can
  have a special meaning in a regular expression and leaves the others alone.
\<close>

definition re_special_chars :: pystr where
  "re_special_chars = str ''()[]{}?*+-|^$'' @ [backslash] @ str ''.&~# '' @ [9, 10, 13, 11, 12]"

definition re_escape :: "pystr \<Rightarrow> pystr" where
  "re_escape pattern =
     concat (map (\<lambda>c. if c \<in> set re_special_chars then [backslash, c] else [c]) pattern)"

text \<open>
  The body of a character class \<open>[...]\<close> is a sequence of items: a single character or
  a range \<open>lo-hi\<close>, where each end is a plain character or a backslash followed by a
  character that is taken literally. A backslash followed by a letter or a digit is one of
  the special escapes of \<open>re\<close>, and an unescaped \<open>]\<close> would close the class: this
  reader gives \<open>None\<close> for both, as it does for a range whose ends are out of order,
  which \<open>re\<close> refuses. A \<open>-\<close> at the very end of the body is a literal.
  An item is kept as the pair of its lowest and highest code point.
\<close>

definition ascii_alnum :: "nat \<Rightarrow> bool" where
  "ascii_alnum c = ((48 \<le> c \<and> c \<le> 57) \<or> (65 \<le> c \<and> c \<le> 90) \<or> (97 \<le> c \<and> c \<le> 122))"

fun class_atom :: "pystr \<Rightarrow> (nat \<times> pystr) option" where
  "class_atom [] = None"
| "class_atom (c # r) =
     (if c = backslash
      then (case r of [] \<Rightarrow> None
            | d # r' \<Rightarrow> if ascii_alnum d then None else Some (d, r'))
      else if c = 93 then None
      else Some (c, r))"

lemma class_atom_shorter: "class_atom s = Some (a, r) \<Longrightarrow> length r < length s"
  by (cases s) (auto split: if_splits list.splits)

function class_items :: "pystr \<Rightarrow> (nat \<times> nat) list option" where
  "class_items s =
     (if s = [] then Some []
      else case class_atom s of
        None \<Rightarrow> None
      | Some (lo, r) \<Rightarrow>
          (case r of
             [] \<Rightarrow> Some [(lo, lo)]
           | d # r2 \<Rightarrow>
               if d = 45
               then (if r2 = [] then Some [(lo, lo), (45, 45)]
                     else case class_atom r2 of
                       None \<Rightarrow> None
                     | Some (hi, r3) \<Rightarrow>
                         if hi < lo then None
                         else map_option ((#) (lo, hi)) (class_items r3))
               else map_option ((#) (lo, lo)) (class_items r)))"
  by pat_completeness auto
termination
proof (relation "measure length", goal_cases)
  case 1
  show ?case by simp
next
  case (2 s x2 lo r d r2 x2a hi r3)
  then have "length r3 < length r2" and "length r < length s"
    by (auto dest: class_atom_shorter)
  with 2 show ?case by simp
next
  case (3 s x2 lo r d r2)
  then have "length r < length s"
    by (auto dest: class_atom_shorter)
  then show ?case by simp
qed

declare class_items.simps [simp del]

definition in_class :: "(nat \<times> nat) list \<Rightarrow> nat \<Rightarrow> bool" where
  "in_class items c = list_ex (\<lambda>(lo, hi). lo \<le> c \<and> c \<le> hi) items"

text \<open>
  \<open>re.sub('([' + body + '])', r'\\\1', text)\<close>: the pattern matches one character of
  the class and captures it; the replacement template is a backslash followed by the
  captured character. The text is scanned from left to right, every match is replaced and
  every other character is copied.
\<close>

fun re_sub_class :: "(nat \<times> nat) list \<Rightarrow> pystr \<Rightarrow> pystr" where
  "re_sub_class items [] = []"
| "re_sub_class items (c # cs) =
     (if in_class items c then backslash # c # re_sub_class items cs
      else c # re_sub_class items cs)"

section \<open>The MarkdownV2 escaper\<close>

definition escape_chars :: pystr where
  "escape_chars = str ''_*[]()~`>#+-=|{}.!''"

text \<open>
  The pattern is compiled from \<open>re.escape(escape_chars)\<close>; \<open>escape_pattern_compiles\<close>
  below shows that the class reader accepts it, so that \<open>the\<close> is applied to a
  \<open>Some\<close>.
\<close>

definition escape_markdown_v2 :: "pystr \<Rightarrow> pystr" where
  "escape_markdown_v2 text = re_sub_class (the (class_items (re_escape escape_chars))) text"

text \<open>
  Removing the escape markers, in the specification's words: a backslash that stands
  immediately before a reserved character is dropped, everything else is kept.
\<close>

fun remove_escape_markers :: "pystr \<Rightarrow> pystr" where
  "remove_escape_markers [] = []"
| "remove_escape_markers [c] = [c]"
| "remove_escape_markers (c # d # r) =
     (if c = backslash \<and> d \<in> set escape_chars then d # remove_escape_markers r
      else c # remove_escape_markers (d # r))"

section \<open>The category table\<close>

text \<open>
  \<open>BUSINESS_CATEGORIES\<close> is a dictionary literal; a Python dictionary keeps the order
  in which its keys were put in, so it is an association list here. Its keys are distinct
  (\<open>category_keys_distinct\<close>), so \<open>map_of\<close> is the lookup.
\<close>

definition BUSINESS_CATEGORIES :: "(pystr \<times> pystr) list" where
  "BUSINESS_CATEGORIES =
     [(str ''tech'', [0x1F680] @ str '' Technology & Software''),
      (str ''ecommerce'', [0x1F6D2] @ str '' E-commerce & Online Business''),
      (str ''health'', [0x1F3E5] @ str '' Health & Wellness''),
      (str ''food'', [0x1F354] @ str '' Food & Beverage''),
      (str ''education'', [0x1F4DA] @ str '' Education & Training''),
      (str ''finance'', [0x1F4B0] @ str '' Finance & Investment''),
      (str ''marketing'', [0x1F4F1] @ str '' Marketing & Social Media''),
      (str ''sustainability'', [0x1F331] @ str '' Sustainability & Green Business''),
      (str ''retail'', [0x1F3EA] @ str '' Retail & Consumer Goods''),
      (str ''services'', [0x1F527] @ str '' Professional Services''),
      (str ''entertainment'', [0x1F3AC] @ str '' Entertainment & Media''),
      (str ''travel'', [0x2708, 0xFE0F] @ str '' Travel & Tourism'')]"

text \<open>\<open>d.get(key, default)\<close>\<close>

definition dict_get :: "(pystr \<times> pystr) list \<Rightarrow> pystr \<Rightarrow> pystr \<Rightarrow> pystr" where
  "dict_get d key dflt = (case map_of d key of None \<Rightarrow> dflt | Some v \<Rightarrow> v)"

section \<open>Effects\<close>

text \<open>
  An exception is a \<open>BadRequest\<close> of the chat library or anything else
  (\<open>TimedOut\<close>, \<open>NetworkError\<close>, \<open>AttributeError\<close>, a plain \<open>Exception\<close>, ...);
  the only \<open>except\<close> clauses of the program are \<open>except BadRequest\<close> and
  \<open>except Exception\<close>. Each carries the text that \<open>str(e)\<close> gives.
\<close>

datatype exn = BadRequest pystr | OtherException pystr

fun exn_str :: "exn \<Rightarrow> pystr" where
  "exn_str (BadRequest m) = m"
| "exn_str (OtherException m) = m"

datatype level = INFO | WARNING | ERROR | CRITICAL

datatype parse_mode = MARKDOWN_V2

datatype button = InlineKeyboardButton pystr pystr

fun button_text :: "button \<Rightarrow> pystr" where
  "button_text (InlineKeyboardButton label callback_data) = label"

fun button_callback_data :: "button \<Rightarrow> pystr" where
  "button_callback_data (InlineKeyboardButton label callback_data) = callback_data"

type_synonym keyboard = "button list list"

text \<open>
  The calls into the chat library: \<open>query.answer()\<close>,
  \<open>edit_message_text(text, parse_mode, reply_markup)\<close> on the object at hand,
  \<open>message.reply_text(...)\<close>, \<open>bot.send_message(chat_id, ...)\<close> and
  \<open>bot.delete_message(chat_id, message_id)\<close>. A missing \<open>parse_mode\<close> or
  \<open>reply_markup\<close> argument is \<open>None\<close>.
\<close>

datatype request =
    Answer
  | EditMessageText pystr "parse_mode option" "keyboard option"
  | ReplyText pystr "parse_mode option" "keyboard option"
  | SendMessage int pystr "parse_mode option" "keyboard option"
  | DeleteMessage int int

text \<open>
  The methods of the bot that are registered as handlers, and the registrations of
  \<open>run\<close>: \<open>CommandHandler(name, method)\<close>,
  \<open>CallbackQueryHandler(self.callback_query_handler)\<close> and
  \<open>add_error_handler(self.error_handler)\<close>.

  What a run of a function leaves behind, in order: log records, calls into the chat
  library, calls of the completion service, a call of the bot's own error handler from
  inside a method, a call of a handler by the router, and the steps of the start-up.
\<close>

datatype handler =
    Start
  | ShowCategories
  | RandomBusinessIdea
  | ShowHelp
  | BackToStart
  | HandleCategorySelection

datatype registration =
    CommandHandler pystr handler
  | CallbackQueryHandler
  | ErrorHandlerRegistration

datatype event =
    Log level pystr
  | Request request
  | GenerateContent pystr
  | ErrorHandler
  | Call handler
  | CreateUpdater pystr
  | AddHandler registration
  | StartWebhook int pystr pystr
  | StartPolling
  | Idle

text \<open>A run is the list of its events and either the exception it raised or its result.\<close>

type_synonym 'a run = "event list \<times> (exn + 'a)"

definition ret :: "'a \<Rightarrow> 'a run" where
  "ret x = ([], Inr x)"

definition raise :: "exn \<Rightarrow> 'a run" where
  "raise e = ([], Inl e)"

definition emit :: "event \<Rightarrow> unit run" where
  "emit ev = ([ev], Inr ())"

text \<open>\<open>m\<close>, then \<open>f\<close> on its result; an exception of \<open>m\<close> ends the run.\<close>

definition bind :: "'a run \<Rightarrow> ('a \<Rightarrow> 'b run) \<Rightarrow> 'b run" where
  "bind m f =
     (case m of
        (es, Inl e) \<Rightarrow> (es, Inl e)
      | (es, Inr x) \<Rightarrow> (case f x of (es', r) \<Rightarrow> (es @ es', r)))"

text \<open>
  A call into the chat library. What the library answers is not up to the program: the
  transport says, for each request, whether it goes through (\<open>None\<close>) or which
  exception it raises.
\<close>

type_synonym transport = "request \<Rightarrow> exn option"

definition call :: "transport \<Rightarrow> request \<Rightarrow> unit run" where
  "call tr req = ([Request req], case tr req of None \<Rightarrow> Inr () | Some e \<Rightarrow> Inl e)"

text \<open>
  \<open>try: m except ... as e: h e\<close>. The handler gives \<open>None\<close> for an exception that
  the \<open>except\<close> clause does not catch.
\<close>

definition try_except :: "'a run \<Rightarrow> (exn \<Rightarrow> 'a run option) \<Rightarrow> 'a run" where
  "try_except m h =
     (case m of
        (es, Inl e) \<Rightarrow>
          (case h e of
             None \<Rightarrow> (es, Inl e)
           | Some k \<Rightarrow> (case k of (es', r) \<Rightarrow> (es @ es', r)))
      | (es, Inr x) \<Rightarrow> (es, Inr x))"

section \<open>The prompt and the completion gateway\<close>

text \<open>
  The f-string \<open>prompt\<close> of \<open>generate_business_idea\<close> is a triple-quoted literal of
  35 lines, each ended by a newline, the last one too. It is written here line by line;
  the two lines that hold the category name have names of their own.
\<close>

definition unlines :: "pystr list \<Rightarrow> pystr" where
  "unlines ls = concat (map (\<lambda>l. l @ [newline]) ls)"

definition request_line :: "pystr \<Rightarrow> pystr" where
  "request_line category_name =
     str ''Generate a comprehensive and innovative business idea for the '' @ [39] @
       category_name @ [39] @ str '' category.''"

definition sector_line :: "pystr \<Rightarrow> pystr" where
  "sector_line category_name = str ''- Specific to the '' @ category_name @ str '' sector''"

definition prompt_lines :: "pystr \<Rightarrow> pystr list" where
  "prompt_lines category_name =
     [request_line category_name,
      [],
      str ''Please format your response with the following structure using markdown '' @
        str ''(use * for bold, not #):'',
      [],
      str ''*'' @ [0x1F680] @ str '' Business Idea: [Creative Business Name]*'',
      [],
      str ''*'' @ [0x1F4A1] @ str '' Core Concept*'',
      str ''[Brief, compelling description of the business idea]'',
      [],
      str ''*'' @ [0x1F3AF] @ str '' Target Market*'',
      str ''[Define the target audience and market size]'',
      [],
      str ''*'' @ [0x1F4B0] @ str '' Revenue Model*'',
      str ''[Explain how the business will make money]'',
      [],
      str ''*'' @ [0x1F525] @ str '' Unique Value Proposition*'',
      str ''[What makes this business special and competitive]'',
      [],
      str ''*'' @ [0x1F4C8] @ str '' Market Opportunity*'',
      str ''[Market trends and opportunities]'',
      [],
      str ''*'' @ [0x1F6E0, 0xFE0F] @ str '' Getting Started*'',
      str ''[3-4 practical steps to launch this business]'',
      [],
      str ''*'' @ [0x1F4B5] @ str '' Estimated Startup Investment*'',
      str ''[Rough estimate of initial investment needed]'',
      [],
      str ''*'' @ [0x26A1] @ str '' Success Factors*'',
      str ''[Key factors for success in this business]'',
      [],
      str ''Ensure the idea is:'',
      str ''- Innovative and relevant to current market trends'',
      str ''- Practical and achievable'',
      sector_line category_name,
      str ''- Formatted with proper markdown for Telegram.'']"

definition prompt :: "pystr \<Rightarrow> pystr" where
  "prompt category_name = unlines (prompt_lines category_name)"

text \<open>
  The eight section headers that the prompt asks for, as the prompt writes them, and their
  titles alone.
\<close>

definition section_headers :: "pystr list" where
  "section_headers =
     [str ''*'' @ [0x1F4A1] @ str '' Core Concept*'',
      str ''*'' @ [0x1F3AF] @ str '' Target Market*'',
      str ''*'' @ [0x1F4B0] @ str '' Revenue Model*'',
      str ''*'' @ [0x1F525] @ str '' Unique Value Proposition*'',
      str ''*'' @ [0x1F4C8] @ str '' Market Opportunity*'',
      str ''*'' @ [0x1F6E0, 0xFE0F] @ str '' Getting Started*'',
      str ''*'' @ [0x1F4B5] @ str '' Estimated Startup Investment*'',
      str ''*'' @ [0x26A1] @ str '' Success Factors*'']"

definition section_titles :: "pystr list" where
  "section_titles =
     [str ''Core Concept'', str ''Target Market'', str ''Revenue Model'',
      str ''Unique Value Proposition'', str ''Market Opportunity'', str ''Getting Started'',
      str ''Estimated Startup Investment'', str ''Success Factors'']"

text \<open>
  The global \<open>model\<close> is \<open>None\<close> when the completion client could not be set up.
  Otherwise \<open>model.generate_content(prompt).text\<close> gives a text or raises; which of
  the two is up to the service, so the client is a function from the prompt to one or the
  other.
\<close>

type_synonym gemini = "(pystr \<Rightarrow> exn + pystr) option"

text \<open>The body of the \<open>try\<close> of \<open>generate_business_idea\<close>.\<close>

definition generate_content :: "gemini \<Rightarrow> pystr \<Rightarrow> pystr run" where
  "generate_content model p =
     (case model of
        None \<Rightarrow> raise (OtherException (str ''Gemini AI model is not initialized.''))
      | Some m \<Rightarrow> ([GenerateContent p], m p))"

text \<open>The f-string \<open>error_text\<close>, with the category name and \<open>str(e)\<close> given.\<close>

definition error_text :: "pystr \<Rightarrow> pystr \<Rightarrow> pystr" where
  "error_text category_name e =
     str ''*'' @ [0x274C] @ str '' Error Generating Idea*'' @ [newline, newline] @
     str ''Sorry, I encountered an error while generating a business idea for *'' @
       escape_markdown_v2 category_name @ str ''*.'' @ [newline, newline] @
     str ''Please try again later or contact support if the issue persists.'' @
       [newline, newline] @
     str ''*Error Details:* `'' @ escape_markdown_v2 e @ str ''`''"

definition generate_business_idea :: "gemini \<Rightarrow> pystr \<Rightarrow> pystr run" where
  "generate_business_idea model category_name =
     try_except (generate_content model (prompt category_name))
       (\<lambda>e. Some (bind (emit (Log ERROR (str ''Error generating business idea: '' @ exn_str e)))
                 (\<lambda>_. ret (replace (error_text category_name (exn_str e))
                                [backslash, asterisk] [asterisk]))))"

text \<open>
  A reserved character counts as escaped when a backslash stands immediately before it;
  the backslash is then used up. \<open>no_unescaped_reserved\<close> reads a string from the left
  and says whether every reserved character of it is escaped.
\<close>

fun no_unescaped_reserved :: "pystr \<Rightarrow> bool" where
  "no_unescaped_reserved [] = True"
| "no_unescaped_reserved [c] = (c \<notin> set escape_chars)"
| "no_unescaped_reserved (c # d # r) =
     (if c = backslash \<and> d \<in> set escape_chars then no_unescaped_reserved r
      else c \<notin> set escape_chars \<and> no_unescaped_reserved (d # r))"

section \<open>The handlers\<close>

text \<open>
  What a method needs from outside: the chat library, the global \<open>model\<close>, and what
  a call of \<open>self.error_handler(update_or_query, context)\<close> from inside a method
  comes to (\<open>None\<close> when it returns, the exception when it raises). What the error
  handler does inside is part of that one \<open>ErrorHandler\<close> event.
\<close>

record env =
  transport :: transport
  model :: gemini
  error_handler :: "exn option"

text \<open>
  \<open>_generate_and_send_idea\<close> gets a callback query or an update as
  \<open>update_or_query\<close> and reads two things from it:
  \<open>update_or_query.message.chat_id\<close>, when the object has a \<open>message\<close> that is
  not \<open>None\<close>, and otherwise \<open>update_or_query.effective_chat.id\<close>, which raises
  for an object without that attribute.
\<close>

record update_or_query =
  message_chat_id :: "int option"
  effective_chat_id :: "exn + int"

subsection \<open>\<open>show_categories\<close>\<close>

definition show_categories_message :: pystr where
  "show_categories_message =
     replace
       (escape_markdown_v2
          ([0x1F3E2] @ str '' *Choose a Business Category:*'' @ [newline, newline] @
           str ''Select a category to get tailored business ideas:''))
       [backslash, asterisk] [asterisk]"

text \<open>
  The two loops that build the keyboard: \<open>i\<close> runs over \<open>range(0, n, 2)\<close>, \<open>j\<close>
  over \<open>range(i, min(i + 2, n))\<close>. Every \<open>j\<close> is below \<open>n\<close>, so the list is
  never read out of its range.
\<close>

definition category_button :: "pystr \<times> pystr \<Rightarrow> button" where
  "category_button entry =
     (case entry of (key, val) \<Rightarrow> InlineKeyboardButton val (str ''category_'' @ key))"

definition range_step_2 :: "nat \<Rightarrow> nat list" where
  "range_step_2 n = map (\<lambda>k. 2 * k) [0 ..< (n + 1) div 2]"

definition category_rows :: "(pystr \<times> pystr) list \<Rightarrow> keyboard" where
  "category_rows categories_list =
     map (\<lambda>i. map (\<lambda>j. category_button (categories_list ! j))
                 [i ..< min (i + 2) (length categories_list)])
       (range_step_2 (length categories_list))"

definition categories_keyboard :: keyboard where
  "categories_keyboard =
     category_rows BUSINESS_CATEGORIES @
     [[InlineKeyboardButton ([0x1F519] @ str '' Back to Menu'') (str ''back_to_start'')]]"

text \<open>
  \<open>has_query\<close> says whether \<open>update.callback_query\<close> is there: it is when the
  method is reached from a button, and it is not for the command \<open>/categories\<close>.
\<close>

definition show_categories :: "env \<Rightarrow> bool \<Rightarrow> unit run" where
  "show_categories e has_query =
     (if has_query
      then call (transport e)
             (EditMessageText show_categories_message (Some MARKDOWN_V2)
                (Some categories_keyboard))
      else call (transport e)
             (ReplyText show_categories_message (Some MARKDOWN_V2)
                (Some categories_keyboard)))"

subsection \<open>\<open>_generate_and_send_idea\<close>\<close>

definition idea_keyboard :: "bool \<Rightarrow> pystr \<Rightarrow> keyboard" where
  "idea_keyboard is_random category_key =
     (if is_random
      then [[InlineKeyboardButton ([0x1F3B2] @ str '' Another Random'') (str ''random_idea'')],
            [InlineKeyboardButton ([0x1F4CB] @ str '' Browse Categories'')
               (str ''show_categories'')],
            [InlineKeyboardButton ([0x1F3E0] @ str '' Main Menu'') (str ''back_to_start'')]]
      else [[InlineKeyboardButton ([0x1F504] @ str '' Generate Another'')
               (str ''category_'' @ category_key)],
            [InlineKeyboardButton ([0x1F4CB] @ str '' All Categories'')
               (str ''show_categories'')],
            [InlineKeyboardButton ([0x1F3E0] @ str '' Main Menu'') (str ''back_to_start'')]])"

text \<open>
  The request that delivers a text: \<open>update_or_query.edit_message_text(...)\<close> when
  \<open>is_query\<close> holds, \<open>context.bot.send_message(chat_id, ...)\<close> otherwise.
\<close>

definition deliver :: "bool \<Rightarrow> int \<Rightarrow> pystr \<Rightarrow> parse_mode option \<Rightarrow> keyboard \<Rightarrow> request" where
  "deliver is_query chat_id body mode reply_markup =
     (if is_query then EditMessageText body mode (Some reply_markup)
      else SendMessage chat_id body mode (Some reply_markup))"

text \<open>
  The last \<open>try\<close> statement of \<open>_generate_and_send_idea\<close>: the idea is sent with
  \<open>parse_mode=MARKDOWN_V2\<close>; \<open>except BadRequest\<close> sends it again, escaped and with
  no parse mode, when the text of the exception has \<open>Can't parse entities\<close> in it, and
  calls the error handler otherwise. The second sending stands inside the \<open>except\<close>
  clause, outside any \<open>try\<close>.
\<close>

definition send_idea :: "env \<Rightarrow> bool \<Rightarrow> int \<Rightarrow> pystr \<Rightarrow> keyboard \<Rightarrow> unit run" where
  "send_idea e is_query chat_id business_idea reply_markup =
     try_except
       (call (transport e) (deliver is_query chat_id business_idea (Some MARKDOWN_V2) reply_markup))
       (\<lambda>x. case x of
          BadRequest m \<Rightarrow>
            Some
              (if contains m (str ''Can'' @ [39] @ str ''t parse entities'')
               then bind
                      (emit (Log WARNING
                         (str ''Could not parse AI-generated markdown. '' @
                          str ''Sending as plain text. Error: '' @ m)))
                      (\<lambda>_. call (transport e)
                              (deliver is_query chat_id (escape_markdown_v2 business_idea) None
                                 reply_markup))
               else bind
                      (emit (Log ERROR (str ''Telegram API error when sending idea: '' @ m)))
                      (\<lambda>_. ([ErrorHandler],
                             case error_handler e of None \<Rightarrow> Inr () | Some x' \<Rightarrow> Inl x')))
        | OtherException m \<Rightarrow> None)"


text \<open>\<open>if loading_msg_id:\<close> holds for a number other than 0.\<close>

definition delete_loading_message :: "env \<Rightarrow> int \<Rightarrow> int option \<Rightarrow> unit run" where
  "delete_loading_message e chat_id loading_msg_id =
     (case loading_msg_id of
        None \<Rightarrow> ret ()
      | Some i \<Rightarrow>
          if i = 0 then ret ()
          else try_except (call (transport e) (DeleteMessage chat_id i))
                 (\<lambda>x. case x of
                    BadRequest m \<Rightarrow>
                      Some (emit (Log WARNING (str ''Could not delete loading message: '' @ m)))
                  | OtherException m \<Rightarrow> None))"

definition generate_and_send_idea ::
  "env \<Rightarrow> update_or_query \<Rightarrow> pystr \<Rightarrow> pystr \<Rightarrow> bool \<Rightarrow> int option \<Rightarrow> unit run" where
  "generate_and_send_idea e update_or_query category_key category_name is_random loading_msg_id =
     bind (generate_business_idea (model e) category_name)
       (\<lambda>business_idea.
          let reply_markup = idea_keyboard is_random category_key;
              is_query = (message_chat_id update_or_query \<noteq> None)
          in bind (case message_chat_id update_or_query of
                     Some c \<Rightarrow> ret c
                   | None \<Rightarrow>
                       (case effective_chat_id update_or_query of
                          Inl x \<Rightarrow> raise x
                        | Inr c \<Rightarrow> ret c))
               (\<lambda>chat_id.
                  bind (delete_loading_message e chat_id loading_msg_id)
                    (\<lambda>_. send_idea e is_query chat_id business_idea reply_markup)))"

subsection \<open>\<open>handle_category_selection\<close>\<close>

definition category_key_of :: "pystr \<Rightarrow> pystr" where
  "category_key_of data = replace data (str ''category_'') []"

definition category_name_of :: "pystr \<Rightarrow> pystr" where
  "category_name_of data =
     dict_get BUSINESS_CATEGORIES (category_key_of data) (str ''Unknown Category'')"

definition loading_message_text :: "pystr \<Rightarrow> pystr" where
  "loading_message_text category_name =
     replace
       ([0x1F504] @ str '' *Generating business idea for '' @
        escape_markdown_v2 category_name @
        [backslash] @ str ''.'' @ [backslash] @ str ''.'' @ [backslash] @ str ''.*'' @
        [newline, newline] @
        str ''Please wait while I create an innovative business concept for you'' @
        [backslash] @ str ''!'')
       [backslash, asterisk] [asterisk]"

text \<open>
  What the method does once the key and the name are known: the loading message, then
  \<open>_generate_and_send_idea(query, context, category_key, category_name)\<close>.
\<close>

definition selection_path :: "env \<Rightarrow> update_or_query \<Rightarrow> pystr \<Rightarrow> pystr \<Rightarrow> unit run" where
  "selection_path e query category_key category_name =
     bind (call (transport e)
             (EditMessageText (loading_message_text category_name) (Some MARKDOWN_V2) None))
       (\<lambda>_. generate_and_send_idea e query category_key category_name False None)"

definition handle_category_selection :: "env \<Rightarrow> update_or_query \<Rightarrow> pystr \<Rightarrow> unit run" where
  "handle_category_selection e query data =
     bind (call (transport e) Answer)
       (\<lambda>_. selection_path e query (category_key_of data) (category_name_of data))"

subsection \<open>\<open>callback_query_handler\<close>\<close>

definition route_map :: "(pystr \<times> handler) list" where
  "route_map =
     [(str ''show_categories'', ShowCategories),
      (str ''random_idea'', RandomBusinessIdea),
      (str ''help'', ShowHelp),
      (str ''back_to_start'', BackToStart)]"

text \<open>
  \<open>self\<close> gives the run of each method on the update at hand. \<open>query.data\<close> is a
  string or \<open>None\<close>; \<open>None\<close> is no key of \<open>route_map\<close> and has no
  \<open>startswith\<close>.
\<close>

definition callback_query_handler :: "(handler \<Rightarrow> unit run) \<Rightarrow> pystr option \<Rightarrow> unit run" where
  "callback_query_handler self data =
     (case data of
        None \<Rightarrow>
          raise (OtherException
            ([39] @ str ''NoneType'' @ [39] @ str '' object has no attribute '' @
             [39] @ str ''startswith'' @ [39]))
      | Some d \<Rightarrow>
          (case map_of route_map d of
             Some h \<Rightarrow> self h
           | None \<Rightarrow>
               if startswith d (str ''category_'') then self HandleCategorySelection
               else ret ()))"

text \<open>A router whose methods do nothing but say that they were called.\<close>

definition calls_only :: "handler \<Rightarrow> unit run" where
  "calls_only h = emit (Call h)"

section \<open>Start-up\<close>

text \<open>
  The configuration that \<open>run\<close> reads: the two module globals taken from the
  environment (\<open>None\<close> when the variable is not set), whether the global \<open>model\<close>
  is there, the variable \<open>WEBHOOK_URL\<close>, and what
  \<open>int(os.environ.get("PORT", 8443))\<close> gives, a number or an exception.
\<close>

record config =
  TELEGRAM_BOT_TOKEN :: "pystr option"
  GEMINI_API_KEY :: "pystr option"
  model_initialized :: bool
  WEBHOOK_URL :: "pystr option"
  PORT :: "exn + int"

text \<open>\<open>not s\<close> for a string or \<open>None\<close>.\<close>

definition falsy :: "pystr option \<Rightarrow> bool" where
  "falsy s = (s = None \<or> s = Some [])"

text \<open>\<open>str(n)\<close> for an integer.\<close>

function nat_digits :: "nat \<Rightarrow> pystr" where
  "nat_digits n = (if n < 10 then [48 + n] else nat_digits (n div 10) @ [48 + n mod 10])"
  by pat_completeness auto
termination
  by (relation "measure id") auto

declare nat_digits.simps [simp del]

definition str_int :: "int \<Rightarrow> pystr" where
  "str_int i = (if i < 0 then 45 # nat_digits (nat (- i)) else nat_digits (nat i))"

definition register_handlers :: "unit run" where
  "register_handlers =
     bind (emit (AddHandler (CommandHandler (str ''start'') Start)))
       (\<lambda>_. bind (emit (AddHandler (CommandHandler (str ''categories'') ShowCategories)))
       (\<lambda>_. bind (emit (AddHandler (CommandHandler (str ''random'') RandomBusinessIdea)))
       (\<lambda>_. bind (emit (AddHandler (CommandHandler (str ''help'') ShowHelp)))
       (\<lambda>_. bind (emit (AddHandler CallbackQueryHandler))
       (\<lambda>_. emit (AddHandler ErrorHandlerRegistration))))))"

definition start_transport :: "config \<Rightarrow> pystr \<Rightarrow> unit run" where
  "start_transport c token =
     (if \<not> falsy (WEBHOOK_URL c)
      then (case WEBHOOK_URL c of
              None \<Rightarrow> ret ()
            | Some webhook_url \<Rightarrow>
                bind (case PORT c of Inl x \<Rightarrow> raise x | Inr p \<Rightarrow> ret p)
                  (\<lambda>port.
                     bind (emit (Log INFO
                             ([0x1F680] @ str '' Starting bot in webhook mode on port '' @
                              str_int port @ str ''...'')))
                       (\<lambda>_. bind (emit (StartWebhook port token (webhook_url @ str ''/'' @ token)))
                       (\<lambda>_. emit (Log INFO
                               ([0x2705] @ str '' Webhook set to '' @ webhook_url @
                                str ''/'' @ token))))))
      else bind (emit (Log INFO ([0x1F680] @ str '' Starting bot in polling mode...'')))
             (\<lambda>_. bind (emit StartPolling)
             (\<lambda>_. emit (Log INFO ([0x2705] @ str '' Bot is running! Press Ctrl+C to stop.'')))))"

definition run :: "config \<Rightarrow> unit run" where
  "run c =
     (if falsy (TELEGRAM_BOT_TOKEN c)
      then emit (Log CRITICAL
             ([0x274C] @
              str '' TELEGRAM_BOT_TOKEN environment variable not set! The bot cannot start.''))
      else if falsy (GEMINI_API_KEY c)
      then emit (Log CRITICAL
             ([0x274C] @
              str '' GEMINI_API_KEY environment variable not set! The bot cannot start.''))
      else if \<not> model_initialized c
      then emit (Log CRITICAL
             ([0x274C] @ str '' Gemini AI model failed to initialize. '' @
              str ''Please check API key and configuration.''))
      else (case TELEGRAM_BOT_TOKEN c of
              None \<Rightarrow> ret ()
            | Some token \<Rightarrow>
                bind (emit (CreateUpdater token))
                  (\<lambda>_. bind register_handlers
                  (\<lambda>_. bind (start_transport c token)
                  (\<lambda>_. emit Idle)))))"

section \<open>Properties of the escaper\<close>

lemma escape_chars_unfold:
  "escape_chars = [95, 42, 91, 93, 40, 41, 126, 96, 62, 35, 43, 45, 61, 124, 123, 125, 46, 33]"
  by (simp add: escape_chars_def str_def)

lemma escape_pattern_compiles:
  "class_items (re_escape escape_chars) = Some (map (\<lambda>c. (c, c)) escape_chars)"
  by code_simp

lemma in_class_escape_chars:
  "in_class (the (class_items (re_escape escape_chars))) c \<longleftrightarrow> c \<in> set escape_chars"
  unfolding escape_pattern_compiles by (auto simp: in_class_def list_ex_iff)

lemma escape_markdown_v2_Nil [simp]: "escape_markdown_v2 [] = []"
  by (simp add: escape_markdown_v2_def)

lemma escape_markdown_v2_Cons:
  "escape_markdown_v2 (c # s) =
     (if c \<in> set escape_chars then backslash # c # escape_markdown_v2 s
      else c # escape_markdown_v2 s)"
  by (simp add: escape_markdown_v2_def in_class_escape_chars)

lemma escape_markdown_v2_append:
  "escape_markdown_v2 (s @ t) = escape_markdown_v2 s @ escape_markdown_v2 t"
  by (induction s) (simp_all add: escape_markdown_v2_Cons)

lemma backslash_not_reserved: "backslash \<notin> set escape_chars"
  by (simp add: escape_chars_unfold)

lemma hd_escape_not_reserved:
  "escape_markdown_v2 s = d # r \<Longrightarrow> d \<notin> set escape_chars"
  by (cases s) (auto simp: escape_markdown_v2_Cons backslash_not_reserved split: if_splits)

text \<open>
  C4. For every input string, the output of the escaper is the input with every character
  of the reserved set \<open>_*[]()~`>#+-=|{}.!\<close> prefixed by a backslash, and every other
  character left unchanged at its place.
\<close>

theorem escape_markdown_v2_prefixes_reserved:
  "escape_markdown_v2 s =
     concat (map (\<lambda>c. if c \<in> set (str ''_*[]()~`>#+-=|{}.!'') then [backslash, c] else [c]) s)"
  by (induction s) (simp_all add: escape_markdown_v2_Cons escape_chars_def)

text \<open>
  C3. For every input string, escaping it and then removing exactly the escape markers
  the escaper inserted (each backslash that stands immediately before a reserved
  character) gives the original string back.
\<close>

theorem escape_markdown_v2_roundtrip:
  "remove_escape_markers (escape_markdown_v2 s) = s"
proof (induction s)
  case Nil
  show ?case by simp
next
  case (Cons c s)
  show ?case
  proof (cases "c \<in> set escape_chars")
    case True
    then show ?thesis
      using Cons.IH by (simp add: escape_markdown_v2_Cons)
  next
    case False
    note not_reserved = this
    show ?thesis
    proof (cases "escape_markdown_v2 s")
      case Nil
      then show ?thesis
        using not_reserved Cons.IH by (simp add: escape_markdown_v2_Cons)
    next
      case (Cons d r)
      then have "d \<notin> set escape_chars"
        by (rule hd_escape_not_reserved)
      then show ?thesis
        using not_reserved Cons Cons.IH by (simp add: escape_markdown_v2_Cons)
    qed
  qed
qed

section \<open>Searching in strings\<close>

text \<open>
  The rules that evaluate a search in a string whose characters are all given. Used alone,
  they keep the simplifier from looking at the rest of the string at every step.
\<close>

lemmas scan_simps = occurrences.simps startswith.simps contains.simps if_True if_False simp_thms
  numeral_eq_iff num.inject num.distinct list.simps list.map sum_list.Nil sum_list.Cons
  add_0_left add_0_right add_Suc_right add_Suc list.pred_inject

lemma startswith_subset: "startswith s h \<Longrightarrow> set h \<subseteq> set s"
  by (induction s h rule: startswith.induct) auto

lemma startswith_self_append: "startswith (h @ b) h"
  by (induction h) auto

lemma startswith_append_stop:
  "n \<notin> set h \<Longrightarrow> startswith (a @ n # b) h = startswith a h"
proof (induction a arbitrary: h)
  case Nil
  then show ?case by (cases h) auto
next
  case (Cons x a)
  then show ?case by (cases h) auto
qed

lemma occurrences_append_stop:
  "n \<notin> set h \<Longrightarrow> h \<noteq> [] \<Longrightarrow>
   occurrences (a @ n # b) h = occurrences a h + occurrences b h"
proof (induction a)
  case Nil
  then show ?case by (cases h) auto
next
  case (Cons x a)
  have "startswith ((x # a) @ n # b) h = startswith (x # a) h"
    using Cons.prems(1) by (rule startswith_append_stop)
  then show ?case using Cons by simp
qed

lemma contains_append_left: "contains s h \<Longrightarrow> contains (a @ s) h"
  by (induction a) auto

lemma contains_middle: "contains (a @ h @ b) h"
proof -
  have "contains (h @ b) h"
    by (cases "h @ b") (use startswith_self_append [of h b] in auto)
  then show ?thesis by (rule contains_append_left)
qed

section \<open>The category table has twelve entries\<close>

lemma category_keys_distinct: "distinct (map fst BUSINESS_CATEGORIES)"
  by (simp add: BUSINESS_CATEGORIES_def str_def)

lemma category_count: "length BUSINESS_CATEGORIES = 12"
  by (simp add: BUSINESS_CATEGORIES_def)

section \<open>The prompt\<close>

text \<open>A search for a text without a newline goes through the prompt line by line.\<close>

lemma occurrences_unlines:
  "newline \<notin> set h \<Longrightarrow> h \<noteq> [] \<Longrightarrow>
   occurrences (unlines ls) h = sum_list (map (\<lambda>l. occurrences l h) ls)"
  by (induction ls) (simp_all add: unlines_def occurrences_append_stop)

lemma prompt_occurrences:
  "newline \<notin> set h \<Longrightarrow> h \<noteq> [] \<Longrightarrow>
   occurrences (prompt category_name) h =
     sum_list (map (\<lambda>l. occurrences l h) (prompt_lines category_name))"
  by (simp add: prompt_def occurrences_unlines)

lemma prompt_contains_name: "contains (prompt category_name) category_name"
proof -
  have "prompt category_name =
      (str ''Generate a comprehensive and innovative business idea for the '' @ [39]) @
      category_name @
      ([39] @ str '' category.'' @ [newline] @ unlines (tl (prompt_lines category_name)))"
    by (simp add: prompt_def prompt_lines_def unlines_def request_line_def)
  then show ?thesis
    using contains_middle by metis
qed

text \<open>
  Outside the two lines that hold the category name, each header and each title stands
  once in the prompt, whatever the name is.
\<close>

lemma prompt_header_counts:
  "list_all (\<lambda>h. occurrences (prompt n) h =
      Suc (occurrences (request_line n) h + occurrences (sector_line n) h)) section_headers"
  apply (simp only: section_headers_def list.pred_inject)
  apply (intro conjI TrueI)
         apply (subst prompt_occurrences, simp add: str_def, simp add: str_def,
      simp add: prompt_lines_def str_def del: occurrences.simps startswith.simps,
      simp only: scan_simps cong: if_weak_cong)+
  done

lemma prompt_title_counts:
  "list_all (\<lambda>h. occurrences (prompt n) h =
      Suc (occurrences (request_line n) h + occurrences (sector_line n) h)) section_titles"
  apply (simp only: section_titles_def list.pred_inject)
  apply (intro conjI TrueI)
         apply (subst prompt_occurrences, simp add: str_def, simp add: str_def,
      simp add: prompt_lines_def str_def del: occurrences.simps startswith.simps,
      simp only: scan_simps cong: if_weak_cong)+
  done

text \<open>With a label of the table as the name, the two lines hold no header and no title.\<close>

lemma name_lines_free:
  "list_all (\<lambda>l. list_all (\<lambda>h. occurrences (request_line l) h = 0 \<and>
       occurrences (sector_line l) h = 0) (section_headers @ section_titles))
     (map snd BUSINESS_CATEGORIES)"
  apply (simp add: BUSINESS_CATEGORIES_def section_headers_def section_titles_def
      request_line_def sector_line_def str_def del: occurrences.simps startswith.simps)
  apply (simp only: scan_simps cong: if_weak_cong)
  done

text \<open>
  C7. For every key of the category table, the prompt built for the key's display label
  contains the label verbatim, and contains each of the eight section headers (as the
  prompt writes them, and also their titles alone) exactly once.
\<close>

theorem prompt_has_label_and_sections:
  assumes "key \<in> set (map fst BUSINESS_CATEGORIES)"
  shows "\<exists>label. map_of BUSINESS_CATEGORIES key = Some label \<and>
           contains (prompt label) label \<and>
           (\<forall>h \<in> set section_headers. occurrences (prompt label) h = 1) \<and>
           (\<forall>t \<in> set section_titles. occurrences (prompt label) t = 1)"
proof -
  from assms obtain label where entry: "(key, label) \<in> set BUSINESS_CATEGORIES"
    by auto
  then have lookup: "map_of BUSINESS_CATEGORIES key = Some label"
    using category_keys_distinct by simp
  from entry have "label \<in> set (map snd BUSINESS_CATEGORIES)"
    by force
  then have free: "\<forall>h \<in> set (section_headers @ section_titles).
      occurrences (request_line label) h = 0 \<and> occurrences (sector_line label) h = 0"
    using name_lines_free by (simp only: list_all_iff) blast
  have "occurrences (prompt label) h = 1" if "h \<in> set section_headers" for h
    using that free prompt_header_counts [of label] by (simp add: list_all_iff)
  moreover have "occurrences (prompt label) t = 1" if "t \<in> set section_titles" for t
    using that free prompt_title_counts [of label] by (simp add: list_all_iff)
  ultimately show ?thesis
    using lookup prompt_contains_name by blast
qed

theorem prompt_has_label_and_sections_witness:
  "str ''tech'' \<in> set (map fst BUSINESS_CATEGORIES) \<and>
   contains (prompt ([0x1F680] @ str '' Technology & Software''))
     ([0x1F680] @ str '' Technology & Software'') \<and>
   occurrences (prompt ([0x1F680] @ str '' Technology & Software''))
     (str ''*'' @ [0x1F3AF] @ str '' Target Market*'') = 1 \<and>
   occurrences (prompt ([0x1F680] @ str '' Technology & Software''))
     (str ''Target Market'') = 1"
proof -
  have key: "str ''tech'' \<in> set (map fst BUSINESS_CATEGORIES)"
    by (simp add: BUSINESS_CATEGORIES_def)
  have "map_of BUSINESS_CATEGORIES (str ''tech'') =
      Some ([0x1F680] @ str '' Technology & Software'')"
    by (simp add: BUSINESS_CATEGORIES_def)
  moreover have "str ''*'' @ [0x1F3AF] @ str '' Target Market*'' \<in> set section_headers"
    by (simp add: section_headers_def)
  moreover have "str ''Target Market'' \<in> set section_titles"
    by (simp add: section_titles_def)
  ultimately show ?thesis
    using key prompt_has_label_and_sections [OF key] by auto
qed

section \<open>The completion gateway\<close>

lemma contains_subset: "contains s h \<Longrightarrow> set h \<subseteq> set s"
proof (induction s)
  case Nil
  then show ?case by simp
next
  case (Cons c s)
  from Cons.prems have "startswith (c # s) h \<or> contains s h" by simp
  then show ?case
  proof
    assume "startswith (c # s) h"
    then show ?thesis by (rule startswith_subset)
  next
    assume "contains s h"
    then have "set h \<subseteq> set s" by (rule Cons.IH)
    then show ?thesis by auto
  qed
qed

lemma replace_scan_no_match: "\<not> contains s old \<Longrightarrow> replace_scan old new s = s"
  by (induction s) auto


lemma contains_pair_append:
  "contains (a @ b) [x, y] \<longleftrightarrow>
     contains a [x, y] \<or> contains b [x, y] \<or> (a \<noteq> [] \<and> last a = x \<and> b \<noteq> [] \<and> hd b = y)"
proof (induction a)
  case Nil
  show ?case by simp
next
  case (Cons c a)
  show ?case
  proof (cases a)
    case Nil
    then show ?thesis by (cases b) auto
  next
    case (Cons d a')
    then show ?thesis using Cons.IH by auto
  qed
qed

lemma set_escape_markdown_v2: "set (escape_markdown_v2 s) \<subseteq> insert backslash (set s)"
  by (induction s) (auto simp: escape_markdown_v2_Cons)

lemma escape_markdown_v2_eq_Nil [simp]: "escape_markdown_v2 s = [] \<longleftrightarrow> s = []"
  by (cases s) (simp_all add: escape_markdown_v2_Cons)

lemma last_escape_markdown_v2: "s \<noteq> [] \<Longrightarrow> last (escape_markdown_v2 s) = last s"
  by (induction s) (auto simp: escape_markdown_v2_Cons)

lemma escape_markdown_v2_id:
  "set s \<inter> set escape_chars = {} \<Longrightarrow> escape_markdown_v2 s = s"
  by (induction s) (auto simp: escape_markdown_v2_Cons)

lemma no_unescaped_reserved_escape: "no_unescaped_reserved (escape_markdown_v2 s)"
proof (induction s)
  case Nil
  show ?case by simp
next
  case (Cons c s)
  show ?case
  proof (cases "c \<in> set escape_chars")
    case True
    then show ?thesis using Cons.IH by (simp add: escape_markdown_v2_Cons)
  next
    case False
    note not_reserved = this
    show ?thesis
    proof (cases "escape_markdown_v2 s")
      case Nil
      then show ?thesis using not_reserved by (simp add: escape_markdown_v2_Cons)
    next
      case (Cons d r)
      then have "d \<notin> set escape_chars" by (rule hd_escape_not_reserved)
      then show ?thesis
        using not_reserved Cons Cons.IH by (simp add: escape_markdown_v2_Cons)
    qed
  qed
qed

lemma no_star_pair_escape:
  "asterisk \<notin> set s \<Longrightarrow> \<not> contains (escape_markdown_v2 s) [backslash, asterisk]"
  using contains_subset set_escape_markdown_v2 by fastforce






lemma replace_scan_pair_append:
  assumes "\<not> contains a [x, y]" and "a = [] \<or> last a \<noteq> x"
  shows "replace_scan [x, y] new (a @ b) = a @ replace_scan [x, y] new b"
  using assms
proof (induction a)
  case Nil
  show ?case by simp
next
  case (Cons c a)
  show ?case
  proof (cases a)
    case Nil
    with Cons.prems show ?thesis by (cases b) auto
  next
    case (Cons d a')
    with Cons.prems Cons.IH show ?thesis by auto
  qed
qed

lemma error_card_structure:
  assumes "asterisk \<notin> set name" and "name = [] \<or> last name \<noteq> backslash"
  shows "replace (error_text name m) [backslash, asterisk] [asterisk] =
     str ''*'' @ [0x274C] @ str '' Error Generating Idea*'' @ [newline, newline] @
     str ''Sorry, I encountered an error while generating a business idea for *'' @
     escape_markdown_v2 name @ str ''*.'' @ [newline, newline] @
     str ''Please try again later or contact support if the issue persists.'' @
     [newline, newline] @ str ''*Error Details:* `'' @
     replace_scan [backslash, asterisk] [asterisk] (escape_markdown_v2 m @ str ''`'')"
proof -
  let ?a = "str ''*'' @ [0x274C] @ str '' Error Generating Idea*'' @ [newline, newline] @
     str ''Sorry, I encountered an error while generating a business idea for *'' @
     escape_markdown_v2 name @ str ''*.'' @ [newline, newline] @
     str ''Please try again later or contact support if the issue persists.'' @
     [newline, newline] @ str ''*Error Details:* `''"
  have split: "error_text name m = ?a @ (escape_markdown_v2 m @ str ''`'')"
    by (simp add: error_text_def)
  have clean: "\<not> contains ?a [backslash, asterisk]"
    using assms
    by (auto simp: str_def contains_pair_append no_star_pair_escape
        last_escape_markdown_v2 hd_append)
  have last: "?a = [] \<or> last ?a \<noteq> backslash"
    by (simp add: str_def)
  show ?thesis
    unfolding split replace_def
    using replace_scan_pair_append [OF clean last] by simp
qed






text \<open>
  Two things the card does that the amended statement of C2 leaves aside. The template's own full
  stops are not escaped, where the loading message of \<open>handle_category_selection\<close>
  escapes its own; and the final \<open>replace\<close>, meant to keep the bold titles, takes the
  backslash from every escaped asterisk of the inserted text.
\<close>

lemma error_card_full_stops:
  "contains (replace (error_text (str ''Unknown Category'') (str ''timeout''))
              [backslash, asterisk] [asterisk])
     (str ''Please try again later or contact support if the issue persists.'') \<and>
   \<not> no_unescaped_reserved
       (str ''Please try again later or contact support if the issue persists.'')"
proof -
  have plain: "asterisk \<notin> set (str ''Unknown Category'')"
    "str ''Unknown Category'' = [] \<or> last (str ''Unknown Category'') \<noteq> backslash"
    by (simp_all add: str_def)
  have "contains (replace (error_text (str ''Unknown Category'') (str ''timeout''))
              [backslash, asterisk] [asterisk])
     (str ''Please try again later or contact support if the issue persists.'')"
    unfolding error_card_structure [OF plain]
    using contains_middle
      [of "str ''*'' @ [0x274C] @ str '' Error Generating Idea*'' @ [newline, newline] @
           str ''Sorry, I encountered an error while generating a business idea for *'' @
           escape_markdown_v2 (str ''Unknown Category'') @ str ''*.'' @ [newline, newline]"
          "str ''Please try again later or contact support if the issue persists.''"]
    by simp
  moreover have "\<not> no_unescaped_reserved
       (str ''Please try again later or contact support if the issue persists.'')"
    by (simp add: str_def escape_chars_unfold)
  ultimately show ?thesis by simp
qed

lemma error_card_asterisk:
  "escape_markdown_v2 (str ''2*3'') = str ''2'' @ [backslash] @ str ''*3'' \<and>
   replace (error_text (str ''Unknown Category'') (str ''2*3'')) [backslash, asterisk] [asterisk] =
     str ''*'' @ [0x274C] @ str '' Error Generating Idea*'' @ [newline, newline] @
     str ''Sorry, I encountered an error while generating a business idea for *'' @
     str ''Unknown Category'' @ str ''*.'' @ [newline, newline] @
     str ''Please try again later or contact support if the issue persists.'' @
     [newline, newline] @ str ''*Error Details:* `'' @ str ''2*3'' @ str ''`''"
proof -
  have plain: "asterisk \<notin> set (str ''Unknown Category'')"
    "str ''Unknown Category'' = [] \<or> last (str ''Unknown Category'') \<noteq> backslash"
    by (simp_all add: str_def)
  have esc: "escape_markdown_v2 (str ''2*3'') = str ''2'' @ [backslash] @ str ''*3''"
    by (simp add: str_def escape_markdown_v2_Cons escape_chars_unfold)
  have name: "escape_markdown_v2 (str ''Unknown Category'') = str ''Unknown Category''"
    by (rule escape_markdown_v2_id) (simp add: str_def escape_chars_unfold)
  have "replace_scan [backslash, asterisk] [asterisk] (escape_markdown_v2 (str ''2*3'') @ str ''`'') =
      str ''2*3'' @ str ''`''"
    unfolding esc by (simp add: str_def)
  then show ?thesis
    unfolding error_card_structure [OF plain] name using esc by simp
qed

section \<open>The router\<close>

lemma route_map_keys:
  "map fst route_map = [str ''show_categories'', str ''random_idea'', str ''help'', str ''back_to_start'']"
  by (simp add: route_map_def)

lemma route_map_category: "map_of route_map (str ''category_'' @ k) = None"
  by (simp add: route_map_def str_def)

lemma route_map_exact:
  "map_of route_map (str ''show_categories'') = Some ShowCategories"
  "map_of route_map (str ''random_idea'') = Some RandomBusinessIdea"
  "map_of route_map (str ''help'') = Some ShowHelp"
  "map_of route_map (str ''back_to_start'') = Some BackToStart"
  by (simp_all add: route_map_def str_def)

lemma replace_prefix:
  assumes "\<not> contains k p" and "p \<noteq> []"
  shows "replace (p @ k) p new = new @ k"
proof -
  from assms(2) obtain c p' where p: "p = c # p'"
    by (cases p) auto
  have "replace_scan p new (p @ k) = new @ replace_scan p new k"
    by (simp add: p startswith_self_append [of "p'" k])
  then show ?thesis
    using assms by (simp add: replace_def replace_scan_no_match)
qed

lemma category_keys_plain:
  "list_all (\<lambda>k. \<not> contains k (str ''category_'')) (map fst BUSINESS_CATEGORIES)"
  apply (simp add: BUSINESS_CATEGORIES_def str_def del: contains.simps startswith.simps)
  apply (simp only: scan_simps cong: if_weak_cong)
  done

lemma category_key_of_prefix:
  assumes "\<not> contains k (str ''category_'')"
  shows "category_key_of (str ''category_'' @ k) = k"
proof -
  have "str ''category_'' \<noteq> []"
    by (simp add: str_def)
  with assms show ?thesis
    by (simp add: category_key_of_def replace_prefix)
qed

text \<open>
  C5. For every key of the category table, the router on the identifier
  \<open>category_<key>\<close> runs the category-selection method, once, and nothing else:
  with methods that only record their call, the record is that one call, so the
  random-idea method is not called. The method gets the key back from the identifier and
  finds the key's label in the table. Each of the identifiers \<open>show_categories\<close>,
  \<open>random_idea\<close>, \<open>help\<close> and \<open>back_to_start\<close> runs exactly the one method
  that \<open>route_map\<close> gives for it.
\<close>

theorem category_callback_routes:
  assumes "key \<in> set (map fst BUSINESS_CATEGORIES)"
  shows "callback_query_handler self (Some (str ''category_'' @ key)) = self HandleCategorySelection \<and>
         fst (callback_query_handler calls_only (Some (str ''category_'' @ key))) =
           [Call HandleCategorySelection] \<and>
         category_key_of (str ''category_'' @ key) = key \<and>
         map_of BUSINESS_CATEGORIES key = Some (category_name_of (str ''category_'' @ key)) \<and>
         callback_query_handler self (Some (str ''show_categories'')) = self ShowCategories \<and>
         callback_query_handler self (Some (str ''random_idea'')) = self RandomBusinessIdea \<and>
         callback_query_handler self (Some (str ''help'')) = self ShowHelp \<and>
         callback_query_handler self (Some (str ''back_to_start'')) = self BackToStart \<and>
         map (\<lambda>d. fst (callback_query_handler calls_only (Some d)))
           [str ''show_categories'', str ''random_idea'', str ''help'', str ''back_to_start''] =
           [[Call ShowCategories], [Call RandomBusinessIdea], [Call ShowHelp], [Call BackToStart]]"
proof -
  have route: "callback_query_handler f (Some (str ''category_'' @ key)) = f HandleCategorySelection"
    for f
    by (simp add: callback_query_handler_def route_map_category startswith_self_append)
  have "\<not> contains key (str ''category_'')"
    using assms category_keys_plain by (simp only: list_all_iff) blast
  then have key: "category_key_of (str ''category_'' @ key) = key"
    by (rule category_key_of_prefix)
  from assms obtain label where "map_of BUSINESS_CATEGORIES key = Some label"
    by (cases "map_of BUSINESS_CATEGORIES key") (auto simp: map_of_eq_None_iff)
  then have name: "map_of BUSINESS_CATEGORIES key = Some (category_name_of (str ''category_'' @ key))"
    by (simp add: category_name_of_def key dict_get_def)
  have exact: "callback_query_handler f (Some (str ''show_categories'')) = f ShowCategories"
    "callback_query_handler f (Some (str ''random_idea'')) = f RandomBusinessIdea"
    "callback_query_handler f (Some (str ''help'')) = f ShowHelp"
    "callback_query_handler f (Some (str ''back_to_start'')) = f BackToStart" for f
    by (simp_all add: callback_query_handler_def route_map_exact)
  show ?thesis
    using route key name exact by (simp add: calls_only_def emit_def)
qed

theorem category_callback_routes_witness:
  "str ''tech'' \<in> set (map fst BUSINESS_CATEGORIES) \<and>
   fst (callback_query_handler calls_only (Some (str ''category_'' @ str ''tech''))) =
     [Call HandleCategorySelection] \<and>
   category_key_of (str ''category_'' @ str ''tech'') = str ''tech'' \<and>
   category_name_of (str ''category_'' @ str ''tech'') = [0x1F680] @ str '' Technology & Software''"
proof -
  have key: "str ''tech'' \<in> set (map fst BUSINESS_CATEGORIES)"
    by (simp add: BUSINESS_CATEGORIES_def)
  have "map_of BUSINESS_CATEGORIES (str ''tech'') =
      Some ([0x1F680] @ str '' Technology & Software'')"
    by (simp add: BUSINESS_CATEGORIES_def)
  then show ?thesis
    using key category_callback_routes [OF key, of calls_only]
    by (simp add: calls_only_def emit_def)
qed

text \<open>
  C6. For every identifier that is none of the four of \<open>route_map\<close> and does not
  start with \<open>category_\<close>, the router runs no method, whatever the methods are: its
  run has no event at all (no reply, no edit) and it returns without raising.
\<close>

theorem unknown_callback_ignored:
  assumes "d \<notin> {str ''show_categories'', str ''random_idea'', str ''help'', str ''back_to_start''}"
    and "\<not> startswith d (str ''category_'')"
  shows "callback_query_handler self (Some d) = ([], Inr ())"
proof -
  have "d \<notin> set (map fst route_map)"
    using assms(1) by (simp add: route_map_keys)
  then have "map_of route_map d = None"
    by (simp add: map_of_eq_None_iff)
  then show ?thesis
    using assms(2) by (simp add: callback_query_handler_def ret_def)
qed

theorem unknown_callback_ignored_witness:
  "str ''settings'' \<notin> {str ''show_categories'', str ''random_idea'', str ''help'', str ''back_to_start''} \<and>
   \<not> startswith (str ''settings'') (str ''category_'') \<and>
   callback_query_handler calls_only (Some (str ''settings'')) = ([], Inr ())"
proof -
  have a: "str ''settings'' \<notin> {str ''show_categories'', str ''random_idea'', str ''help'', str ''back_to_start''}"
    by (simp add: str_def)
  have b: "\<not> startswith (str ''settings'') (str ''category_'')"
    by (simp add: str_def)
  show ?thesis
    using a b unknown_callback_ignored [OF a b, of calls_only] by simp
qed

section \<open>The categories menu\<close>

lemma categories_keyboard_buttons:
  "concat categories_keyboard =
     map category_button BUSINESS_CATEGORIES @
     [InlineKeyboardButton ([0x1F519] @ str '' Back to Menu'') (str ''back_to_start'')]"
  by (simp add: categories_keyboard_def category_rows_def range_step_2_def
      BUSINESS_CATEGORIES_def)

lemma category_labels_distinct: "distinct (map snd BUSINESS_CATEGORIES)"
  by (simp add: BUSINESS_CATEGORIES_def str_def)

lemma show_categories_message_plain:
  "show_categories_message =
     [0x1F3E2] @ str '' *Choose a Business Category:*'' @ [newline, newline] @
     str ''Select a category to get tailored business ideas:''"
  by (simp add: show_categories_message_def str_def escape_markdown_v2_Cons escape_chars_unfold
      replace_def)

text \<open>
  C9. The router on the identifier \<open>show_categories\<close> runs \<open>show_categories\<close>,
  which (reached from a button) edits the message into the categories menu: the text
  \<open>Choose a Business Category\<close> with a keyboard whose buttons are the twelve display
  labels of the category table, in the table's order and each with the identifier
  \<open>category_<key>\<close>, followed by the control \<open>Back to Menu\<close>.
\<close>

theorem show_categories_menu:
  "callback_query_handler self (Some (str ''show_categories'')) = self ShowCategories \<and>
   fst (show_categories e True) =
     [Request (EditMessageText show_categories_message (Some MARKDOWN_V2)
        (Some categories_keyboard))] \<and>
   show_categories_message =
     [0x1F3E2] @ str '' *Choose a Business Category:*'' @ [newline, newline] @
     str ''Select a category to get tailored business ideas:'' \<and>
   map button_text (concat categories_keyboard) =
     map snd BUSINESS_CATEGORIES @ [[0x1F519] @ str '' Back to Menu''] \<and>
   map button_callback_data (concat categories_keyboard) =
     map (\<lambda>key. str ''category_'' @ key) (map fst BUSINESS_CATEGORIES) @ [str ''back_to_start''] \<and>
   length (map snd BUSINESS_CATEGORIES) = 12 \<and>
   distinct (map snd BUSINESS_CATEGORIES)"
proof -
  have "callback_query_handler self (Some (str ''show_categories'')) = self ShowCategories"
    by (simp add: callback_query_handler_def route_map_exact)
  moreover have "fst (show_categories e True) =
     [Request (EditMessageText show_categories_message (Some MARKDOWN_V2)
        (Some categories_keyboard))]"
    by (simp add: show_categories_def call_def)
  moreover have "map button_text (map category_button BUSINESS_CATEGORIES) =
      map snd BUSINESS_CATEGORIES"
    by (simp add: category_button_def split_def comp_def)
  moreover have "map button_callback_data (map category_button BUSINESS_CATEGORIES) =
      map (\<lambda>key. str ''category_'' @ key) (map fst BUSINESS_CATEGORIES)"
    by (simp add: category_button_def split_def comp_def)
  ultimately show ?thesis
    using show_categories_message_plain category_labels_distinct category_count
    by (simp add: categories_keyboard_buttons)
qed

section \<open>Delivery with a fallback\<close>

lemma generate_business_idea_returns:
  "\<exists>es t. generate_business_idea m n = (es, Inr t)"
proof (cases "generate_content m (prompt n)")
  case (Pair es r)
  then show ?thesis
    by (cases r) (simp_all add: generate_business_idea_def try_except_def bind_def emit_def ret_def)
qed

lemma send_idea_cases:
  fixes e q c idea kb
  defines "first \<equiv> deliver q c idea (Some MARKDOWN_V2) kb"
    and "again \<equiv> deliver q c (escape_markdown_v2 idea) None kb"
    and "parse_error \<equiv> str ''Can'' @ [39] @ str ''t parse entities''"
  shows "transport e first = None \<Longrightarrow> send_idea e q c idea kb = ([Request first], Inr ())"
    and "transport e first = Some (OtherException m) \<Longrightarrow>
           send_idea e q c idea kb = ([Request first], Inl (OtherException m))"
    and "transport e first = Some (BadRequest m) \<Longrightarrow> contains m parse_error \<Longrightarrow>
           send_idea e q c idea kb =
             ([Request first,
               Log WARNING (str ''Could not parse AI-generated markdown. '' @
                  str ''Sending as plain text. Error: '' @ m),
               Request again],
              case transport e again of None \<Rightarrow> Inr () | Some x \<Rightarrow> Inl x)"
    and "transport e first = Some (BadRequest m) \<Longrightarrow> \<not> contains m parse_error \<Longrightarrow>
           send_idea e q c idea kb =
             ([Request first,
               Log ERROR (str ''Telegram API error when sending idea: '' @ m),
               ErrorHandler],
              case error_handler e of None \<Rightarrow> Inr () | Some x \<Rightarrow> Inl x)"
  unfolding first_def again_def parse_error_def
  by (simp_all add: send_idea_def try_except_def call_def bind_def emit_def)





section \<open>A category that is not in the table\<close>

lemma delete_loading_message_None: "delete_loading_message e c None = ([], Inr ())"
  by (simp add: delete_loading_message_def ret_def)

lemma send_idea_accepted:
  "\<forall>r. transport e r = None \<Longrightarrow> snd (send_idea e q c idea kb) = Inr ()"
  by (simp add: send_idea_cases(1))

lemma generate_and_send_idea_returns:
  assumes "\<forall>r. transport e r = None" and "message_chat_id q \<noteq> None"
  shows "snd (generate_and_send_idea e q key name random None) = Inr ()"
proof -
  obtain es t where idea: "generate_business_idea (model e) name = (es, Inr t)"
    using generate_business_idea_returns by blast
  from assms(2) obtain c where chat: "message_chat_id q = Some c"
    by auto
  obtain es' r where sent: "send_idea e True c t (idea_keyboard random key) = (es', r)"
    by (cases "send_idea e True c t (idea_keyboard random key)")
  with send_idea_accepted [OF assms(1), of True c t "idea_keyboard random key"]
  have "r = Inr ()" by simp
  with sent idea chat show ?thesis
    by (simp add: generate_and_send_idea_def bind_def ret_def delete_loading_message_None)
qed

lemma selection_path_returns:
  assumes "\<forall>r. transport e r = None" and "message_chat_id q \<noteq> None"
  shows "snd (bind (call (transport e) Answer) (\<lambda>_. selection_path e q key name)) = Inr ()"
proof -
  obtain es r where run: "generate_and_send_idea e q key name False None = (es, r)"
    by (cases "generate_and_send_idea e q key name False None")
  with generate_and_send_idea_returns [OF assms, of key name False]
  have "r = Inr ()" by simp
  with run assms(1) show ?thesis
    by (simp add: selection_path_def bind_def call_def)
qed

text \<open>
  Where \<open>k\<close> is no key of the category table and has no \<open>category_\<close> in it, the
  method does on \<open>category_<k>\<close> what it does on a key of the table, with the label
  \<open>Unknown Category\<close>: the lookup raises nothing, the query is answered, the loading
  message is shown and the idea is generated and sent. It returns when the chat library
  accepts every request and the query has a message.
\<close>

lemma unknown_category_selection:
  assumes "k \<notin> set (map fst BUSINESS_CATEGORIES)" and "\<not> contains k (str ''category_'')"
  shows "category_key_of (str ''category_'' @ k) = k \<and>
     category_name_of (str ''category_'' @ k) = str ''Unknown Category'' \<and>
     handle_category_selection e q (str ''category_'' @ k) =
       bind (call (transport e) Answer)
         (\<lambda>_. selection_path e q k (str ''Unknown Category'')) \<and>
     (\<forall>key label. map_of BUSINESS_CATEGORIES key = Some label \<longrightarrow>
        handle_category_selection e q (str ''category_'' @ key) =
          bind (call (transport e) Answer) (\<lambda>_. selection_path e q key label)) \<and>
     ((\<forall>r. transport e r = None) \<and> message_chat_id q \<noteq> None \<longrightarrow>
        snd (handle_category_selection e q (str ''category_'' @ k)) = Inr ())"
proof -
  have key: "category_key_of (str ''category_'' @ k) = k"
    using assms(2) by (rule category_key_of_prefix)
  have "map_of BUSINESS_CATEGORIES k = None"
    using assms(1) by (simp add: map_of_eq_None_iff)
  then have name: "category_name_of (str ''category_'' @ k) = str ''Unknown Category''"
    by (simp add: category_name_of_def key dict_get_def)
  have valid: "handle_category_selection e q (str ''category_'' @ key) =
      bind (call (transport e) Answer) (\<lambda>_. selection_path e q key label)"
    if "map_of BUSINESS_CATEGORIES key = Some label" for key label
  proof -
    from that have "key \<in> set (map fst BUSINESS_CATEGORIES)"
      by (auto dest: map_of_SomeD intro: rev_image_eqI)
    then have "\<not> contains key (str ''category_'')"
      using category_keys_plain by (simp only: list_all_iff) blast
    then have "category_key_of (str ''category_'' @ key) = key"
      by (rule category_key_of_prefix)
    with that show ?thesis
      by (simp add: handle_category_selection_def category_name_of_def dict_get_def)
  qed
  have "snd (handle_category_selection e q (str ''category_'' @ k)) = Inr ()"
    if "\<forall>r. transport e r = None" "message_chat_id q \<noteq> None"
    using selection_path_returns [OF that] by (simp add: handle_category_selection_def)
  then show ?thesis
    using key name valid by (simp add: handle_category_selection_def)
qed

text \<open>
  C10. For every identifier \<open>category_<k>\<close> where \<open>k\<close> is no key of the category
  table, the category-selection method is to fall back to the label
  \<open>Unknown Category\<close>. The code does not at the identifier
  \<open>category_category_tech\<close>: \<open>category_tech\<close> is no key of the table, but the
  method takes the key with \<open>replace\<close>, which removes both \<open>category_\<close>, where the
  router looks at the prefix only. The key is then \<open>tech\<close>, the label is that of
  \<open>tech\<close> and not \<open>Unknown Category\<close>, and the method does what it does on the
  identifier \<open>category_tech\<close>.
\<close>

theorem handle_category_selection_nested_prefix:
  "str ''category_tech'' \<notin> set (map fst BUSINESS_CATEGORIES) \<and>
   category_key_of (str ''category_'' @ str ''category_tech'') = str ''tech'' \<and>
   category_name_of (str ''category_'' @ str ''category_tech'') =
     [0x1F680] @ str '' Technology & Software'' \<and>
   category_name_of (str ''category_'' @ str ''category_tech'') \<noteq> str ''Unknown Category'' \<and>
   handle_category_selection
     \<lparr>transport = (\<lambda>r. None), model = None, error_handler = None\<rparr>
     \<lparr>message_chat_id = Some 7, effective_chat_id = Inr 7\<rparr>
     (str ''category_'' @ str ''category_tech'') =
   handle_category_selection
     \<lparr>transport = (\<lambda>r. None), model = None, error_handler = None\<rparr>
     \<lparr>message_chat_id = Some 7, effective_chat_id = Inr 7\<rparr>
     (str ''category_'' @ str ''tech'')"
proof -
  have key: "category_key_of (str ''category_'' @ str ''category_tech'') = str ''tech''"
    by (simp add: category_key_of_def replace_def str_def)
  have name: "category_name_of (str ''category_'' @ str ''category_tech'') =
      [0x1F680] @ str '' Technology & Software''"
    unfolding category_name_of_def key
    by (simp add: dict_get_def BUSINESS_CATEGORIES_def)
  have "\<not> contains (str ''tech'') (str ''category_'')"
    by (simp add: str_def)
  then have key': "category_key_of (str ''category_'' @ str ''tech'') = str ''tech''"
    by (rule category_key_of_prefix)
  have same: "category_name_of (str ''category_'' @ str ''category_tech'') =
      category_name_of (str ''category_'' @ str ''tech'')"
    by (simp add: category_name_of_def key key')
  have absent: "str ''category_tech'' \<notin> set (map fst BUSINESS_CATEGORIES)"
    by (simp add: BUSINESS_CATEGORIES_def str_def)
  have differs: "[0x1F680] @ str '' Technology & Software'' \<noteq> str ''Unknown Category''"
    by (simp add: str_def)
  show ?thesis
    using absent key name differs
    by (simp add: handle_category_selection_def key' same [symmetric])
qed

section \<open>Refusing to start\<close>

text \<open>
  C8. If the chat token or the key of the completion service is absent at start-up
  (\<open>None\<close>, or the empty string, which \<open>not\<close> treats alike), \<open>run\<close> logs one
  critical record that names the missing variable and returns: no updater is made, no
  handler is registered and no transport is started.
\<close>

theorem run_refuses_without_secrets:
  assumes "falsy (TELEGRAM_BOT_TOKEN c) \<or> falsy (GEMINI_API_KEY c)"
  shows "run c =
     ([Log CRITICAL
         (if falsy (TELEGRAM_BOT_TOKEN c)
          then [0x274C] @
            str '' TELEGRAM_BOT_TOKEN environment variable not set! The bot cannot start.''
          else [0x274C] @
            str '' GEMINI_API_KEY environment variable not set! The bot cannot start.'')],
      Inr ())"
  using assms by (auto simp: run_def emit_def)

theorem run_refuses_without_secrets_witness:
  "falsy (TELEGRAM_BOT_TOKEN \<lparr>TELEGRAM_BOT_TOKEN = Some (str ''123:abc''), GEMINI_API_KEY = None,
      model_initialized = True, WEBHOOK_URL = None, PORT = Inr 8443\<rparr>) = False \<and>
   falsy (GEMINI_API_KEY \<lparr>TELEGRAM_BOT_TOKEN = Some (str ''123:abc''), GEMINI_API_KEY = None,
      model_initialized = True, WEBHOOK_URL = None, PORT = Inr 8443\<rparr>) \<and>
   run \<lparr>TELEGRAM_BOT_TOKEN = Some (str ''123:abc''), GEMINI_API_KEY = None,
      model_initialized = True, WEBHOOK_URL = None, PORT = Inr 8443\<rparr> =
     ([Log CRITICAL ([0x274C] @
        str '' GEMINI_API_KEY environment variable not set! The bot cannot start.'')], Inr ())"
proof -
  let ?c = "\<lparr>TELEGRAM_BOT_TOKEN = Some (str ''123:abc''), GEMINI_API_KEY = None,
      model_initialized = True, WEBHOOK_URL = None, PORT = Inr 8443\<rparr>"
  have h: "falsy (TELEGRAM_BOT_TOKEN ?c) \<or> falsy (GEMINI_API_KEY ?c)"
    by (simp add: falsy_def)
  have "run ?c = ([Log CRITICAL ([0x274C] @
        str '' GEMINI_API_KEY environment variable not set! The bot cannot start.'')], Inr ())"
    using run_refuses_without_secrets [OF h] by (simp add: falsy_def str_def)
  then show ?thesis
    by (simp add: falsy_def str_def)
qed

end
